theory Spec2Isabelle
  imports Main
begin

section \<open>The bridging header as text\<close>

text \<open>
  The repository's source is one file, \<^verbatim>\<open>Source/BridgingHeader.h\<close>. It is embedded as the
  list of its thirty physical lines, character for character (the file has no tab, and
  its last line has no terminating newline). Everything below is computed from this text.
\<close>

definition BridgingHeader :: "string list" where
  "BridgingHeader = [
    ''//'',
    ''// Copyright (C) 2019 Muhammad Tayyab Akram'',
    ''//'',
    ''// Licensed under the Apache License, Version 2.0 (the \"License\");'',
    ''// you may not use this file except in compliance with the License.'',
    ''// You may obtain a copy of the License at'',
    ''//'',
    ''//      http://www.apache.org/licenses/LICENSE-2.0'',
    ''//'',
    ''// Unless required by applicable law or agreed to in writing, software'',
    ''// distributed under the License is distributed on an \"AS IS\" BASIS,'',
    ''// WITHOUT WARRANTIES OR CONDITIONS OF ANY KIND, either express or implied.'',
    ''// See the License for the specific language governing permissions and'',
    ''// limitations under the License.'',
    ''//'',
    '''',
    ''#include <ft2build.h>'',
    ''#include FT_ADVANCES_H'',
    ''#include FT_FREETYPE_H'',
    ''#include FT_SFNT_NAMES_H'',
    ''#include FT_SIZES_H'',
    ''#include FT_STROKER_H'',
    ''#include FT_SYSTEM_H'',
    ''#include FT_TRUETYPE_TABLES_H'',
    ''#include FT_TYPES_H'',
    '''',
    ''#include <linebreak.h>'',
    '''',
    ''#include <SheenBidi.h>'',
    ''#include <SheenFigure.h>''
  ]"

section \<open>Lexical classification of a line\<close>

text \<open>
  What the C preprocessor sees on one physical line of a file without block comments and
  without line continuations: nothing, a line comment, a directive or program text. The
  operand of an \<^verbatim>\<open>#include\<close> is a header name in angle brackets, a header name in double
  quotes, or preprocessing tokens that are macro-expanded first; the header uses the first
  and the third form, the third with a single identifier.
\<close>

datatype include_target = Angle string | Quoted string | MacroName string

datatype line_kind = Blank | Comment | Include include_target | Directive string | Code

definition is_space :: "char \<Rightarrow> bool" where
  "is_space c = (c = CHR '' '' \<or> c = CHR 0x09)"

definition is_digit :: "char \<Rightarrow> bool" where
  "is_digit c = (let n = (of_char c :: nat) in 48 \<le> n \<and> n \<le> 57)"

definition is_ident_char :: "char \<Rightarrow> bool" where
  "is_ident_char c =
     (let n = (of_char c :: nat) in
        c = CHR ''_'' \<or> (65 \<le> n \<and> n \<le> 90) \<or> (97 \<le> n \<and> n \<le> 122) \<or> is_digit c)"

definition trim :: "string \<Rightarrow> string" where
  "trim s = rev (dropWhile is_space (rev (dropWhile is_space s)))"

definition parse_target :: "string \<Rightarrow> include_target option" where
  "parse_target s =
     (if length s < 3 then
        (if s \<noteq> [] \<and> list_all is_ident_char s \<and> \<not> is_digit (hd s)
         then Some (MacroName s) else None)
      else if hd s = CHR ''<'' \<and> last s = CHR ''>'' \<and> CHR ''>'' \<notin> set (butlast (tl s))
        then Some (Angle (butlast (tl s)))
      else if hd s = CHR 0x22 \<and> last s = CHR 0x22 \<and> CHR 0x22 \<notin> set (butlast (tl s))
        then Some (Quoted (butlast (tl s)))
      else if list_all is_ident_char s \<and> \<not> is_digit (hd s)
        then Some (MacroName s)
      else None)"

definition classify :: "string \<Rightarrow> line_kind" where
  "classify l =
     (let s = trim l in
        if s = [] then Blank
        else if take 2 s = ''//'' then Comment
        else if hd s = CHR ''#'' then
          (let d = dropWhile is_space (tl s);
               name = takeWhile is_ident_char d;
               rest = trim (drop (length name) d)
           in if name = ''include'' then
                (case parse_target rest of
                   Some t \<Rightarrow> Include t
                 | None \<Rightarrow> Directive name)
              else Directive name)
        else Code)"

text \<open>The include operands of a file, in order, and the lines that are anything else
  than blank lines, comments and includes.\<close>

fun includes_of :: "string list \<Rightarrow> include_target list" where
  "includes_of [] = []"
| "includes_of (l # ls) =
     (case classify l of
        Include t \<Rightarrow> t # includes_of ls
      | _ \<Rightarrow> includes_of ls)"

definition is_trivia_or_include :: "line_kind \<Rightarrow> bool" where
  "is_trivia_or_include k =
     (case k of Blank \<Rightarrow> True | Comment \<Rightarrow> True | Include t \<Rightarrow> True
      | Directive d \<Rightarrow> False | Code \<Rightarrow> False)"

definition other_lines :: "string list \<Rightarrow> string list" where
  "other_lines ls = filter (\<lambda>l. \<not> is_trivia_or_include (classify l)) ls"

text \<open>The library an include operand belongs to, by its name: FreeType's entry header
  \<^verbatim>\<open>ft2build.h\<close> and the \<^verbatim>\<open>FT_..._H\<close> header macros, the line-breaking library, SheenBidi
  and SheenFigure.\<close>

datatype library = FreeType | LineBreak | SheenBidi | SheenFigure

definition library_of :: "include_target \<Rightarrow> library option" where
  "library_of t =
     (case t of
        Angle h \<Rightarrow>
          (if h = ''ft2build.h'' then Some FreeType
           else if h = ''linebreak.h'' then Some LineBreak
           else if h = ''SheenBidi.h'' then Some SheenBidi
           else if h = ''SheenFigure.h'' then Some SheenFigure
           else None)
      | Quoted h \<Rightarrow> None
      | MacroName m \<Rightarrow> (if take 3 m = ''FT_'' then Some FreeType else None))"

section \<open>Resolving the includes\<close>

text \<open>
  The preprocessor keeps the object-like macros defined so far; here only those that
  name a header matter, so the environment maps a macro name to the header it expands
  to. The included headers are third-party files outside the repository: what each of
  them defines is the parameter \<open>provides\<close>. An include by header name adds what that
  header provides. An include by macro name looks the macro up: undefined, the directive
  is ill-formed and preprocessing stops with an error; defined, the header it names is
  included.
\<close>

type_synonym macro_env = "string \<rightharpoonup> string"

datatype pp_error = UndefinedIncludeMacro string

fun resolve :: "(string \<Rightarrow> macro_env) \<Rightarrow> macro_env \<Rightarrow> include_target list \<Rightarrow> pp_error + macro_env" where
  "resolve provides env [] = Inr env"
| "resolve provides env (Angle h # ts) = resolve provides (env ++ provides h) ts"
| "resolve provides env (Quoted h # ts) = resolve provides (env ++ provides h) ts"
| "resolve provides env (MacroName m # ts) =
     (case env m of
        None \<Rightarrow> Inl (UndefinedIncludeMacro m)
      | Some h \<Rightarrow> resolve provides (env ++ provides h) ts)"

fun macro_names :: "include_target list \<Rightarrow> string list" where
  "macro_names [] = []"
| "macro_names (MacroName m # ts) = m # macro_names ts"
| "macro_names (Angle h # ts) = macro_names ts"
| "macro_names (Quoted h # ts) = macro_names ts"

text \<open>The header macros of FreeType that the bridging header uses, with the headers
  FreeType's \<^verbatim>\<open>ft2build.h\<close> (through \<^verbatim>\<open>freetype/config/ftheader.h\<close>) maps them to; an
  instance of the parameter, used to run \<open>resolve\<close> on a concrete input.\<close>

definition freetype_provides :: "string \<Rightarrow> macro_env" where
  "freetype_provides h =
     (if h = ''ft2build.h'' then
        map_of [
          (''FT_ADVANCES_H'', ''freetype/ftadvanc.h''),
          (''FT_FREETYPE_H'', ''freetype/freetype.h''),
          (''FT_SFNT_NAMES_H'', ''freetype/ftsnames.h''),
          (''FT_SIZES_H'', ''freetype/ftsizes.h''),
          (''FT_STROKER_H'', ''freetype/ftstroke.h''),
          (''FT_SYSTEM_H'', ''freetype/ftsystem.h''),
          (''FT_TRUETYPE_TABLES_H'', ''freetype/tttables.h''),
          (''FT_TYPES_H'', ''freetype/fttypes.h'')]
      else Map.empty)"

section \<open>Evaluation of the header\<close>

lemma classify_BridgingHeader:
  "map classify BridgingHeader =
     replicate 15 Comment @ [Blank,
      Include (Angle ''ft2build.h''),
      Include (MacroName ''FT_ADVANCES_H''),
      Include (MacroName ''FT_FREETYPE_H''),
      Include (MacroName ''FT_SFNT_NAMES_H''),
      Include (MacroName ''FT_SIZES_H''),
      Include (MacroName ''FT_STROKER_H''),
      Include (MacroName ''FT_SYSTEM_H''),
      Include (MacroName ''FT_TRUETYPE_TABLES_H''),
      Include (MacroName ''FT_TYPES_H''),
      Blank,
      Include (Angle ''linebreak.h''),
      Blank,
      Include (Angle ''SheenBidi.h''),
      Include (Angle ''SheenFigure.h'')]"
  by code_simp

lemma includes_of_BridgingHeader:
  "includes_of BridgingHeader =
     [Angle ''ft2build.h'',
      MacroName ''FT_ADVANCES_H'',
      MacroName ''FT_FREETYPE_H'',
      MacroName ''FT_SFNT_NAMES_H'',
      MacroName ''FT_SIZES_H'',
      MacroName ''FT_STROKER_H'',
      MacroName ''FT_SYSTEM_H'',
      MacroName ''FT_TRUETYPE_TABLES_H'',
      MacroName ''FT_TYPES_H'',
      Angle ''linebreak.h'',
      Angle ''SheenBidi.h'',
      Angle ''SheenFigure.h'']"
  by code_simp

lemma other_lines_BridgingHeader: "other_lines BridgingHeader = []"
  by code_simp

lemma macro_names_BridgingHeader:
  "macro_names (includes_of BridgingHeader) =
     [''FT_ADVANCES_H'', ''FT_FREETYPE_H'', ''FT_SFNT_NAMES_H'', ''FT_SIZES_H'',
      ''FT_STROKER_H'', ''FT_SYSTEM_H'', ''FT_TRUETYPE_TABLES_H'', ''FT_TYPES_H'']"
  unfolding includes_of_BridgingHeader by simp

section \<open>Properties of include resolution\<close>

text \<open>Resolution only ever adds definitions, so a macro defined before a list of
  includes is still defined at each of them.\<close>

lemma resolve_succeeds:
  "set (macro_names ts) \<subseteq> dom env \<Longrightarrow> \<exists>env'. resolve provides env ts = Inr env'"
proof (induction provides env ts rule: resolve.induct)
  case (1 provides env)
  show ?case by simp
next
  case (2 provides env h ts)
  from "2.prems" have "set (macro_names ts) \<subseteq> dom (env ++ provides h)"
    by auto
  with "2.IH" show ?case by simp
next
  case (3 provides env h ts)
  from "3.prems" have "set (macro_names ts) \<subseteq> dom (env ++ provides h)"
    by auto
  with "3.IH" show ?case by simp
next
  case (4 provides env m ts)
  from "4.prems" obtain h where h: "env m = Some h"
    by auto
  from "4.prems" have "set (macro_names ts) \<subseteq> dom (env ++ provides h)"
    by auto
  with "4.IH" [OF h] h show ?case by simp
qed

text \<open>The order matters: with nothing defined yet, an include by macro name fails,
  whatever follows it. So does the header with its first two includes exchanged, even with
  FreeType's own definitions.\<close>

lemma resolve_macro_first_fails:
  "resolve provides Map.empty (MacroName m # ts) = Inl (UndefinedIncludeMacro m)"
  by simp

lemma resolve_exchanged_fails:
  "resolve freetype_provides Map.empty
     (MacroName ''FT_ADVANCES_H'' # Angle ''ft2build.h'' # drop 2 (includes_of BridgingHeader))
   = Inl (UndefinedIncludeMacro ''FT_ADVANCES_H'')"
  by simp

section \<open>The claims\<close>

text \<open>
  C1. The source file consists only of \<^verbatim>\<open>#include\<close> directives (besides comments and
  blank lines): no line is program text or any other directive, so the file declares no
  data, has no control flow and no error handling. Its twelve includes are, in order,
  \<^verbatim>\<open>ft2build.h\<close> and eight FreeType header macros, \<^verbatim>\<open>linebreak.h\<close>, \<^verbatim>\<open>SheenBidi.h\<close> and
  \<^verbatim>\<open>SheenFigure.h\<close>: every one belongs to one of four libraries, and all four occur.
\<close>

theorem BridgingHeader_only_includes:
  "other_lines BridgingHeader = []
   \<and> length BridgingHeader = 30
   \<and> includes_of BridgingHeader =
       [Angle ''ft2build.h'',
        MacroName ''FT_ADVANCES_H'',
        MacroName ''FT_FREETYPE_H'',
        MacroName ''FT_SFNT_NAMES_H'',
        MacroName ''FT_SIZES_H'',
        MacroName ''FT_STROKER_H'',
        MacroName ''FT_SYSTEM_H'',
        MacroName ''FT_TRUETYPE_TABLES_H'',
        MacroName ''FT_TYPES_H'',
        Angle ''linebreak.h'',
        Angle ''SheenBidi.h'',
        Angle ''SheenFigure.h'']
   \<and> map library_of (includes_of BridgingHeader) =
       replicate 9 (Some FreeType) @ [Some LineBreak, Some SheenBidi, Some SheenFigure]
   \<and> set (map library_of (includes_of BridgingHeader)) =
       {Some FreeType, Some LineBreak, Some SheenBidi, Some SheenFigure}"
proof -
  have len: "length BridgingHeader = 30"
    by (simp add: BridgingHeader_def)
  have libs: "map library_of (includes_of BridgingHeader) =
      replicate 9 (Some FreeType) @ [Some LineBreak, Some SheenBidi, Some SheenFigure]"
    unfolding includes_of_BridgingHeader by code_simp
  have "set (map library_of (includes_of BridgingHeader)) =
      {Some FreeType, Some LineBreak, Some SheenBidi, Some SheenFigure}"
    unfolding libs by (simp add: numeral_eq_Suc)
  with len libs other_lines_BridgingHeader includes_of_BridgingHeader
  show ?thesis by simp
qed

text \<open>
  C10. The header includes \<^verbatim>\<open>ft2build.h\<close> before any include by macro name: no such
  include precedes it, and all of them name \<^verbatim>\<open>FT_\<close> macros. Hence, provided that
  \<^verbatim>\<open>ft2build.h\<close> defines the header macros the file uses (as FreeType's does), every macro
  is defined where it is used: resolving the includes from the empty environment reaches
  the end of the file without an undefined-macro error.
\<close>

theorem ft2build_before_macro_includes:
  assumes "set (macro_names (includes_of BridgingHeader)) \<subseteq> dom (provides ''ft2build.h'')"
  shows "Angle ''ft2build.h'' \<in> set (includes_of BridgingHeader)
    \<and> macro_names (takeWhile (\<lambda>t. t \<noteq> Angle ''ft2build.h'') (includes_of BridgingHeader)) = []
    \<and> list_all (\<lambda>m. take 3 m = ''FT_'') (macro_names (includes_of BridgingHeader))
    \<and> (\<exists>env. resolve provides Map.empty (includes_of BridgingHeader) = Inr env)"
proof -
  obtain ts where ts: "includes_of BridgingHeader = Angle ''ft2build.h'' # ts"
    by (simp add: includes_of_BridgingHeader)
  have first: "Angle ''ft2build.h'' \<in> set (includes_of BridgingHeader)"
    and before: "macro_names (takeWhile (\<lambda>t. t \<noteq> Angle ''ft2build.h'')
        (includes_of BridgingHeader)) = []"
    unfolding ts by simp_all
  have ft: "list_all (\<lambda>m. take 3 m = ''FT_'') (macro_names (includes_of BridgingHeader))"
    unfolding macro_names_BridgingHeader by simp
  from assms have "set (macro_names ts) \<subseteq> dom (Map.empty ++ provides ''ft2build.h'')"
    unfolding ts by simp
  then obtain env where "resolve provides (Map.empty ++ provides ''ft2build.h'') ts = Inr env"
    using resolve_succeeds by blast
  then have "resolve provides Map.empty (includes_of BridgingHeader) = Inr env"
    unfolding ts by simp
  with first before ft show ?thesis by blast
qed

theorem ft2build_before_macro_includes_witness:
  "set (macro_names (includes_of BridgingHeader)) \<subseteq> dom (freetype_provides ''ft2build.h'')
   \<and> (\<exists>env. resolve freetype_provides Map.empty (includes_of BridgingHeader) = Inr env)"
proof -
  have h: "set (macro_names (includes_of BridgingHeader))
      \<subseteq> dom (freetype_provides ''ft2build.h'')"
    unfolding macro_names_BridgingHeader by (simp add: freetype_provides_def)
  from ft2build_before_macro_includes [of freetype_provides, OF h] h show ?thesis by blast
qed

end
